theory Spec2Isabelle
  imports Main
begin

section \<open>Python values and strings\<close>

text \<open>
  The program is \<^verbatim>\<open>challenge-5/app.py\<close>, a Streamlit front end of a claims-processing
  REST API. The values it handles are the ones \<^verbatim>\<open>json.loads\<close> produces. A float is
  kept exact: a finite one is \<open>(-1)^s * m * 2^e\<close>, and the two infinities and NaN (which
  Python's JSON reader produces for \<^verbatim>\<open>1e999\<close>, \<^verbatim>\<open>Infinity\<close>, \<^verbatim>\<open>NaN\<close>) are values
  of their own. A dict is an association list, looked up from the front.

  A \<open>str\<close> is modelled as a \<open>string\<close>: the characters are the code points 0 to 255,
  and \<^verbatim>\<open>str.lower\<close>, \<^verbatim>\<open>str.strip\<close> are Python's on that range.
\<close>

datatype pyfloat = Finite bool nat int | Inf bool | NaN

datatype pyval =
    PNone
  | PBool bool
  | PInt int
  | PFloat pyfloat
  | PStr string
  | PList "pyval list"
  | PDict "(string \<times> pyval) list"

text \<open>Truth value testing, as \<^verbatim>\<open>not x\<close>, \<^verbatim>\<open>x or y\<close> and \<^verbatim>\<open>if x\<close> use it.\<close>

fun truthy :: "pyval \<Rightarrow> bool" where
  "truthy PNone = False"
| "truthy (PBool b) = b"
| "truthy (PInt n) = (n \<noteq> 0)"
| "truthy (PFloat (Finite s m e)) = (m \<noteq> 0)"
| "truthy (PFloat (Inf s)) = True"
| "truthy (PFloat NaN) = True"
| "truthy (PStr s) = (s \<noteq> [])"
| "truthy (PList xs) = (xs \<noteq> [])"
| "truthy (PDict d) = (d \<noteq> [])"

text \<open>\<^verbatim>\<open>x or y\<close>.\<close>

definition py_or :: "pyval \<Rightarrow> pyval \<Rightarrow> pyval" where
  "py_or x y = (if truthy x then x else y)"

text \<open>\<^verbatim>\<open>d.get(k, default)\<close>.\<close>

definition dict_get :: "(string \<times> pyval) list \<Rightarrow> string \<Rightarrow> pyval \<Rightarrow> pyval" where
  "dict_get d k dflt = (case map_of d k of None \<Rightarrow> dflt | Some v \<Rightarrow> v)"

text \<open>
  \<^verbatim>\<open>str.isspace\<close> on one character: the code points 9 to 13, 28 to 32, 133 and 160.
\<close>

definition py_isspace :: "char \<Rightarrow> bool" where
  "py_isspace c =
     (let n = (of_char c :: nat)
      in (9 \<le> n \<and> n \<le> 13) \<or> (28 \<le> n \<and> n \<le> 32) \<or> n = 133 \<or> n = 160)"

text \<open>
  \<^verbatim>\<open>str.lower\<close> on one character: the letters A to Z, and the upper-case letters of
  Latin-1 (192 to 222 without the multiplication sign 215), move up by 32.
\<close>

definition lower_char :: "char \<Rightarrow> char" where
  "lower_char c =
     (let n = (of_char c :: nat)
      in if (65 \<le> n \<and> n \<le> 90) \<or> (192 \<le> n \<and> n \<le> 222 \<and> n \<noteq> 215)
         then char_of (n + 32) else c)"

definition py_lower :: "string \<Rightarrow> string" where
  "py_lower s = map lower_char s"

definition py_lstrip :: "string \<Rightarrow> string" where
  "py_lstrip s = dropWhile py_isspace s"

definition py_rstrip :: "string \<Rightarrow> string" where
  "py_rstrip s = rev (dropWhile py_isspace (rev s))"

definition py_strip :: "string \<Rightarrow> string" where
  "py_strip s = py_rstrip (py_lstrip s)"

text \<open>\<^verbatim>\<open>s.rstrip(chars)\<close>: drops every trailing character that occurs in \<open>chars\<close>.\<close>

definition rstrip_chars :: "string \<Rightarrow> string \<Rightarrow> string" where
  "rstrip_chars chars s = rev (dropWhile (\<lambda>c. c \<in> set chars) (rev s))"

text \<open>\<^verbatim>\<open>s.endswith(suf)\<close>.\<close>

definition endswith :: "string \<Rightarrow> string \<Rightarrow> bool" where
  "endswith s suf = (length suf \<le> length s \<and> drop (length s - length suf) s = suf)"

section \<open>Configuration: the API base URL\<close>

text \<open>
  \<^verbatim>\<open>
  DEFAULT_API_URL = os.environ.get("API_URL", "https://claims-...io").rstrip("/")

  def get_api_url() -> str:
      if "api_url" not in st.session_state:
          st.session_state.api_url = DEFAULT_API_URL
      return st.session_state.api_url.rstrip("/")
  \<close>
  The environment is a map from variable names to values. The session state holds one
  attribute, \<open>api_url\<close>, which is absent until the first call.
\<close>

definition BUILTIN_API_URL :: string where
  "BUILTIN_API_URL =
     ''https://claims-processing-api.orangeforest-dfe25231.swedencentral.azurecontainerapps.io''"

definition DEFAULT_API_URL :: "(string \<rightharpoonup> string) \<Rightarrow> string" where
  "DEFAULT_API_URL environ =
     rstrip_chars ''/'' (case environ ''API_URL'' of None \<Rightarrow> BUILTIN_API_URL | Some v \<Rightarrow> v)"

record session_state =
  api_url :: "string option"

definition get_api_url :: "(string \<rightharpoonup> string) \<Rightarrow> session_state \<Rightarrow> session_state \<times> string" where
  "get_api_url environ st =
     (let st' = (if api_url st = None then st\<lparr>api_url := Some (DEFAULT_API_URL environ)\<rparr> else st)
      in (st', rstrip_chars ''/'' (case api_url st' of Some u \<Rightarrow> u | None \<Rightarrow> [])))"

text \<open>
  The sidebar of \<open>main\<close>:
  \<^verbatim>\<open>
  api_url = st.text_input("API URL", value=get_api_url()).strip().rstrip("/")
  st.session_state.api_url = api_url
  \<close>
  The text field returns what the user typed, or its \<open>value\<close> argument when the user
  typed nothing.
\<close>

definition text_input :: "string option \<Rightarrow> string \<Rightarrow> string" where
  "text_input typed val = (case typed of None \<Rightarrow> val | Some t \<Rightarrow> t)"

definition sidebar_api_url ::
    "(string \<rightharpoonup> string) \<Rightarrow> session_state \<Rightarrow> string option \<Rightarrow> session_state \<times> string" where
  "sidebar_api_url environ st typed =
     (let (st', shown) = get_api_url environ st;
          url = rstrip_chars ''/'' (py_strip (text_input typed shown))
      in (st'\<lparr>api_url := Some url\<rparr>, url))"

text \<open>
  The specification's wording, for comparison, stated without the string functions of
  the program: \<open>r\<close> is \<open>s\<close> with its trailing slashes stripped when \<open>s\<close> is \<open>r\<close>
  followed by slashes only and \<open>r\<close> does not end with a slash.
\<close>

definition slashes_stripped :: "string \<Rightarrow> string \<Rightarrow> bool" where
  "slashes_stripped s r =
     (s = r @ replicate (length s - length r) (CHR ''/'') \<and> take 1 (rev r) \<noteq> ''/'')"

section \<open>Mime type of the upload\<close>

text \<open>
  \<^verbatim>\<open>
  name_lower = uploaded.name.lower()
  if name_lower.endswith(".png"):
      mime = "image/png"
  else:
      mime = "image/jpeg"
  \<close>
\<close>

definition infer_mime :: "string \<Rightarrow> string" where
  "infer_mime name =
     (let name_lower = py_lower name
      in if endswith name_lower ''.png'' then ''image/png'' else ''image/jpeg'')"

text \<open>
  The specification's wording, for comparison: the file name ends with \<open>.png\<close>, the
  letters in either case.
\<close>

definition ends_with_png_ci :: "string \<Rightarrow> bool" where
  "ends_with_png_ci name =
     (case rev name of
        g # n # p # d # _ \<Rightarrow>
          d = CHR ''.'' \<and> p \<in> set ''pP'' \<and> n \<in> set ''nN'' \<and> g \<in> set ''gG''
      | _ \<Rightarrow> False)"

section \<open>Severity pill\<close>

text \<open>
  \<^verbatim>\<open>
  def severity_pill(severity: str) -> str:
      s = (severity or "").strip().lower()
      if s in ["severe", "critical", "high", "significant"]:
          return '<span class="pill pill-bad">High</span>'
      if s in ["moderate", "medium"]:
          return '<span class="pill pill-warn">Medium</span>'
      if s in ["minor", "low"]:
          return '<span class="pill pill-ok">Low</span>'
      return f'<span class="pill pill-neutral">{severity or "N/A"}</span>'
  \<close>
  The argument is a \<open>str\<close> or \<open>None\<close>.
\<close>

definition str_or :: "string option \<Rightarrow> string \<Rightarrow> string" where
  "str_or x dflt = (case x of None \<Rightarrow> dflt | Some s \<Rightarrow> if s = [] then dflt else s)"

definition severity_pill :: "string option \<Rightarrow> string" where
  \<open>severity_pill severity =
     (let s = py_lower (py_strip (str_or severity []))
      in if s \<in> set [''severe'', ''critical'', ''high'', ''significant'']
         then ''<span class="pill pill-bad">High</span>''
         else if s \<in> set [''moderate'', ''medium'']
         then ''<span class="pill pill-warn">Medium</span>''
         else if s \<in> set [''minor'', ''low'']
         then ''<span class="pill pill-ok">Low</span>''
         else ''<span class="pill pill-neutral">'' @ str_or severity ''N/A'' @ ''</span>'')\<close>

text \<open>
  The specification's \<open>classify_severity\<close>, stated without the string functions of
  the program. Trimming removes the blanks at both ends, the blanks being the listed
  characters (tab to carriage return, the four separators, space, next line and the
  no-break space). Lower-casing before the lookup means that the trimmed input is
  one of the keywords up to the case of its letters: \<open>same_letter c k\<close> says that
  \<open>c\<close> is the letter \<open>k\<close> of a keyword, in lower or in upper case. Anything else
  passes through (\<open>N/A\<close> when empty or \<open>None\<close>) with the neutral tier.
  \<open>pill_html\<close> is the markup of a label in a tier.
\<close>

definition blank_chars :: string where
  "blank_chars =
     [CHR 0x09, CHR 0x0A, CHR 0x0B, CHR 0x0C, CHR 0x0D, CHR 0x1C, CHR 0x1D, CHR 0x1E,
      CHR 0x1F, CHR 0x20, CHR 0x85, CHR 0xA0]"

fun trim_left :: "string \<Rightarrow> string" where
  "trim_left [] = []"
| "trim_left (c # cs) = (if c \<in> set blank_chars then trim_left cs else c # cs)"

fun trim_right :: "string \<Rightarrow> string" where
  "trim_right [] = []"
| "trim_right (c # cs) =
     (if trim_right cs = [] \<and> c \<in> set blank_chars then [] else c # trim_right cs)"

definition trimmed :: "string \<Rightarrow> string" where
  "trimmed s = trim_right (trim_left s)"

definition same_letter :: "char \<Rightarrow> char \<Rightarrow> bool" where
  "same_letter c k =
     (c = k \<or> (c, k) \<in> set (zip ''ABCDEFGHIJKLMNOPQRSTUVWXYZ'' ''abcdefghijklmnopqrstuvwxyz''))"

definition is_keyword :: "string \<Rightarrow> string list \<Rightarrow> bool" where
  "is_keyword w kws = list_ex (list_all2 same_letter w) kws"

datatype tier = High | Medium | Low | Neutral

definition classify_severity :: "string option \<Rightarrow> string \<times> tier" where
  "classify_severity raw =
     (let s = trimmed (case raw of None \<Rightarrow> [] | Some x \<Rightarrow> x)
      in if is_keyword s [''severe'', ''critical'', ''high'', ''significant''] then (''High'', High)
         else if is_keyword s [''moderate'', ''medium''] then (''Medium'', Medium)
         else if is_keyword s [''minor'', ''low''] then (''Low'', Low)
         else (case raw of
                 None \<Rightarrow> (''N/A'', Neutral)
               | Some x \<Rightarrow> if x = [] then (''N/A'', Neutral) else (x, Neutral)))"

fun tier_class :: "tier \<Rightarrow> string" where
  "tier_class High = ''pill-bad''"
| "tier_class Medium = ''pill-warn''"
| "tier_class Low = ''pill-ok''"
| "tier_class Neutral = ''pill-neutral''"

definition pill_html :: "string \<times> tier \<Rightarrow> string" where
  \<open>pill_html lt = ''<span class="pill '' @ tier_class (snd lt) @ ''">'' @ fst lt @ ''</span>''\<close>

section \<open>Exceptions\<close>

text \<open>
  Code that can raise returns a sum: \<open>Inl\<close> is the exception, with its class name and
  the text \<^verbatim>\<open>str(e)\<close> gives. Every exception modelled here is an instance of
  \<^verbatim>\<open>Exception\<close>, which is what the two \<^verbatim>\<open>except Exception\<close> clauses catch.
\<close>

datatype exn = Exn string string

fun str_exn :: "exn \<Rightarrow> string" where
  "str_exn (Exn cls msg) = msg"

definition bind :: "exn + 'a \<Rightarrow> ('a \<Rightarrow> exn + 'b) \<Rightarrow> exn + 'b" where
  "bind m f = (case m of Inl e \<Rightarrow> Inl e | Inr x \<Rightarrow> f x)"

text \<open>\<^verbatim>\<open>try: body  except Exception as e: handler(e)\<close>.\<close>

definition try_except :: "exn + 'a \<Rightarrow> (exn \<Rightarrow> exn + 'a) \<Rightarrow> exn + 'a" where
  "try_except body handler = (case body of Inl e \<Rightarrow> handler e | Inr x \<Rightarrow> Inr x)"

section \<open>API client\<close>

text \<open>
  The HTTP library is not part of the program. A request either raises (a transport
  error: DNS, refused connection, timeout) or returns a response. Of a response the
  program uses two methods: \<^verbatim>\<open>raise_for_status()\<close> and \<^verbatim>\<open>json()\<close>. The response
  carries its status code, the text of the error \<^verbatim>\<open>raise_for_status\<close> raises for it,
  and what \<^verbatim>\<open>json()\<close> does on its body: the parsed value, or the decoding error.
\<close>

record response =
  status_code :: nat
  status_error :: string
  json :: "exn + pyval"

datatype outcome = Raises exn | Returns response

text \<open>
  Modelled from the spec: \<^verbatim>\<open>raise_for_status\<close> belongs to the HTTP library; the
  specification has every non-2xx status as a failure.
\<close>

definition raise_for_status :: "response \<Rightarrow> exn + response" where
  "raise_for_status r =
     (if 200 \<le> status_code r \<and> status_code r \<le> 299 then Inr r
      else Inl (Exn ''HTTPStatusError'' (status_error r)))"

definition request :: "outcome \<Rightarrow> exn + response" where
  "request out = (case out of Raises e \<Rightarrow> Inl e | Returns r \<Rightarrow> Inr r)"


text \<open>
  \<^verbatim>\<open>
  def process_claim(api_url: str, file_content: bytes, filename: str, mime: str) -> dict:
      try:
          with httpx.Client(timeout=180.0) as client:
              files = {"file": (filename, file_content, mime)}
              r = client.post(f"{api_url}/process-claim/upload", files=files)
              r.raise_for_status()
              return r.json()
      except Exception as e:
          return {"success": False, "error": str(e)}
  \<close>
  \<open>client_post\<close> is what a POST of the multipart fields to a URL does.
\<close>

type_synonym upload = "string \<times> nat list \<times> string"

definition process_claim ::
    "(string \<Rightarrow> (string \<times> upload) list \<Rightarrow> outcome) \<Rightarrow> string \<Rightarrow> nat list \<Rightarrow> string \<Rightarrow> string
     \<Rightarrow> exn + pyval" where
  "process_claim client_post base_url file_content filename mime =
     try_except
       (let files = [(''file'', (filename, file_content, mime))]
        in bind (request (client_post (base_url @ ''/process-claim/upload'') files)) (\<lambda>r.
           bind (raise_for_status r) (\<lambda>r. json r)))
       (\<lambda>e. Inr (PDict [(''success'', PBool False), (''error'', PStr (str_exn e))]))"



definition always_post :: "outcome \<Rightarrow> string \<Rightarrow> (string \<times> upload) list \<Rightarrow> outcome" where
  "always_post out url files = out"

section \<open>Formatting numbers\<close>

text \<open>
  \<^verbatim>\<open>str(n)\<close> of an int: the decimal digits, with a minus sign.
\<close>

definition digit_char :: "nat \<Rightarrow> char" where
  "digit_char d = ''0123456789'' ! d"

fun digits_of :: "nat \<Rightarrow> string" where
  "digits_of n = (if n < 10 then [digit_char n] else digits_of (n div 10) @ [digit_char (n mod 10)])"

declare digits_of.simps [simp del]

definition str_int :: "int \<Rightarrow> string" where
  "str_int n = (if n < 0 then ''-'' @ digits_of (nat (- n)) else digits_of (nat n))"

text \<open>
  The format \<^verbatim>\<open>,.2f\<close>. A finite float is rounded to two decimals, ties to even, on
  its exact value; \<open>cents_of m e\<close> is \<open>m * 2^e * 100\<close> so rounded. The integer part is
  written in groups of three digits with commas, the sign is kept (also on a zero),
  and an infinity or a NaN is written \<open>inf\<close>, \<open>-inf\<close>, \<open>nan\<close>.
\<close>

definition cents_of :: "nat \<Rightarrow> int \<Rightarrow> nat" where
  "cents_of m e =
     (if 0 \<le> e then m * 2 ^ nat e * 100
      else (let d = 2 ^ nat (- e); q = (m * 100) div d; r = (m * 100) mod d
            in if d < 2 * r \<or> (2 * r = d \<and> odd q) then q + 1 else q))"

fun commas_rev :: "string \<Rightarrow> string" where
  "commas_rev (a # b # c # d # ds) = a # b # c # CHR '','' # commas_rev (d # ds)"
| "commas_rev ds = ds"

definition commas :: "string \<Rightarrow> string" where
  "commas ds = rev (commas_rev (rev ds))"

definition fixed2 :: "bool \<Rightarrow> nat \<Rightarrow> string" where
  "fixed2 s c =
     (if s then ''-'' else []) @ commas (digits_of (c div 100)) @ ''.''
       @ [digit_char (c mod 100 div 10), digit_char (c mod 10)]"

fun format_2f :: "pyfloat \<Rightarrow> string" where
  "format_2f (Finite s m e) = fixed2 s (cents_of m e)"
| "format_2f (Inf s) = (if s then ''-inf'' else ''inf'')"
| "format_2f NaN = ''nan''"

text \<open>
  An int is formatted with \<^verbatim>\<open>f\<close> through \<^verbatim>\<open>float(n)\<close>: the nearest double, ties to
  even on the 53 leading bits, and \<^verbatim>\<open>OverflowError\<close> when that is \<open>2^1024\<close> or more.
\<close>

fun bit_length :: "nat \<Rightarrow> nat" where
  "bit_length n = (if n = 0 then 0 else Suc (bit_length (n div 2)))"

declare bit_length.simps [simp del]

definition float_of_int :: "int \<Rightarrow> exn + pyfloat" where
  "float_of_int n =
     (let a = nat \<bar>n\<bar>; b = bit_length a
      in if b \<le> 53 then Inr (Finite (n < 0) a 0)
         else (let sh = b - 53; d = 2 ^ sh; q = a div d; r = a mod d;
                   q' = (if d < 2 * r \<or> (2 * r = d \<and> odd q) then q + 1 else q)
               in if 2 ^ 1024 \<le> q' * d
                  then Inl (Exn ''OverflowError'' ''int too large to convert to float'')
                  else Inr (Finite (n < 0) q' (int sh))))"

text \<open>
  The specification's shape of a formatted amount, for comparison: an optional minus
  sign, digits in groups of three separated by commas (the first group of one to three
  digits), a point, and exactly two decimals.
\<close>

definition is_digit :: "char \<Rightarrow> bool" where
  "is_digit c = (c \<in> set ''0123456789'')"

fun grouped_rev :: "string \<Rightarrow> bool" where
  "grouped_rev [] = False"
| "grouped_rev [a] = is_digit a"
| "grouped_rev [a, b] = (is_digit a \<and> is_digit b)"
| "grouped_rev [a, b, c] = (is_digit a \<and> is_digit b \<and> is_digit c)"
| "grouped_rev (a # b # c # d # ds) =
     (is_digit a \<and> is_digit b \<and> is_digit c \<and> d = CHR '','' \<and> grouped_rev ds)"

definition unsigned_shape :: "string \<Rightarrow> bool" where
  "unsigned_shape t =
     (case rev t of
        d2 # d1 # p # ip \<Rightarrow> is_digit d2 \<and> is_digit d1 \<and> p = CHR ''.'' \<and> grouped_rev ip
      | _ \<Rightarrow> False)"

definition money_shape :: "string \<Rightarrow> bool" where
  "money_shape t =
     (case t of
        [] \<Rightarrow> False
      | c # u \<Rightarrow> (c = CHR ''-'' \<and> unsigned_shape u) \<or> unsigned_shape t)"

text \<open>
  The digits of a string read as one number, whatever stands between them: of an
  amount with two decimals this is the amount in cents.
\<close>

definition digit_val :: "char \<Rightarrow> nat" where
  "digit_val c = of_char c - 48"

definition digits_value :: "string \<Rightarrow> nat" where
  "digits_value t = foldl (\<lambda>a c. 10 * a + digit_val c) 0 (filter is_digit t)"

section \<open>Rendering the results\<close>

text \<open>
  What the page shows is the sequence of the elements the program paints, in order:
  one element for each call of \<^verbatim>\<open>st.markdown\<close>, \<^verbatim>\<open>st.metric\<close>, \<^verbatim>\<open>st.write\<close> and the
  like. The layout containers (columns, \<^verbatim>\<open>with\<close> blocks) are left out. A block of
  class \<open>kv\<close> is kept as its rows, each a label and the value that the f-string
  interpolates; the constant markup around the values is left out. \<open>Bullet a\<close> is
  \<^verbatim>\<open>st.markdown(f"- {a}")\<close>.
\<close>

datatype ui =
    Markdown string
  | Metric string pyval
  | KeyValues "(string \<times> pyval) list"
  | Write pyval
  | Bullet pyval
  | Divider
  | StatusUpdate string string
  | Json pyval
  | ErrorBox pyval
  | Expander string "ui list"

text \<open>
  \<^verbatim>\<open>str(v)\<close>. For a float, a list or a dict it is Python's \<^verbatim>\<open>repr\<close>, which is not
  part of the program: the parameter \<open>repr\<close> stands for it.
\<close>

fun py_str :: "(pyval \<Rightarrow> string) \<Rightarrow> pyval \<Rightarrow> string" where
  "py_str repr PNone = ''None''"
| "py_str repr (PBool b) = (if b then ''True'' else ''False'')"
| "py_str repr (PInt n) = str_int n"
| "py_str repr (PStr s) = s"
| "py_str repr (PFloat f) = repr (PFloat f)"
| "py_str repr (PList xs) = repr (PList xs)"
| "py_str repr (PDict d) = repr (PDict d)"

fun type_name :: "pyval \<Rightarrow> string" where
  "type_name PNone = ''NoneType''"
| "type_name (PBool b) = ''bool''"
| "type_name (PInt n) = ''int''"
| "type_name (PFloat f) = ''float''"
| "type_name (PStr s) = ''str''"
| "type_name (PList xs) = ''list''"
| "type_name (PDict d) = ''dict''"

text \<open>
  \<^verbatim>\<open>obj.get(k, default)\<close> on any value: only a dict has the method, on anything else
  the call raises \<^verbatim>\<open>AttributeError\<close>.
\<close>

definition quoted :: "string \<Rightarrow> string" where
  "quoted s = CHR 0x27 # s @ [CHR 0x27]"

definition py_get :: "pyval \<Rightarrow> string \<Rightarrow> pyval \<Rightarrow> exn + pyval" where
  "py_get obj k dflt =
     (case obj of
        PDict d \<Rightarrow> Inr (dict_get d k dflt)
      | _ \<Rightarrow> Inl (Exn ''AttributeError''
                    (quoted (type_name obj) @ '' object has no attribute '' @ quoted ''get'')))"

text \<open>
  \<^verbatim>\<open>st.metric(label, value)\<close>. The framework accepts an int, a float, a str or
  \<open>None\<close> as the value and raises on anything else. The text of that exception is
  the framework's and is not modelled: the name of the refused type stands for it.
\<close>

fun metric_accepts :: "pyval \<Rightarrow> bool" where
  "metric_accepts (PList xs) = False"
| "metric_accepts (PDict d) = False"
| "metric_accepts v = True"

definition st_metric :: "string \<Rightarrow> pyval \<Rightarrow> exn + ui" where
  "st_metric label v =
     (if metric_accepts v then Inr (Metric label v)
      else Inl (Exn ''StreamlitInvalidParameterTypeError'' (type_name v)))"

text \<open>
  The cells of the damage card:
  \<^verbatim>\<open>
  sev = damage.get("severity", "N/A")
  est = damage.get("estimated_cost", None)
  areas = damage.get("affected_areas", []) or []
  sev_html = severity_pill(str(sev))
  ... {f"${est:,.2f}" if isinstance(est,(int,float)) else (est if est is not None else "N/A")}
  ... {len(areas) if isinstance(areas,list) else "N/A"}
  \<close>
  A bool is an instance of \<open>int\<close>, and is formatted as 1 or 0.
\<close>

definition cost_cell :: "pyval \<Rightarrow> exn + pyval" where
  "cost_cell est =
     (case est of
        PBool b \<Rightarrow> bind (float_of_int (if b then 1 else 0)) (\<lambda>f. Inr (PStr (''$'' @ format_2f f)))
      | PInt n \<Rightarrow> bind (float_of_int n) (\<lambda>f. Inr (PStr (''$'' @ format_2f f)))
      | PFloat f \<Rightarrow> Inr (PStr (''$'' @ format_2f f))
      | PNone \<Rightarrow> Inr (PStr ''N/A'')
      | _ \<Rightarrow> Inr est)"

text \<open>
  A cell that shows an amount: a dollar sign, then a string of the shape above.
\<close>

definition shown_as_money :: "exn + pyval \<Rightarrow> bool" where
  "shown_as_money cell =
     (case cell of Inr (PStr (c # t)) \<Rightarrow> c = CHR ''$'' \<and> money_shape t | _ \<Rightarrow> False)"

definition affected_areas :: "(string \<times> pyval) list \<Rightarrow> pyval" where
  "affected_areas damage = py_or (dict_get damage ''affected_areas'' (PList [])) (PList [])"

definition areas_cell :: "pyval \<Rightarrow> pyval" where
  "areas_cell areas = (case areas of PList xs \<Rightarrow> PInt (int (length xs)) | _ \<Rightarrow> PStr ''N/A'')"

text \<open>
  \<^verbatim>\<open>
  if isinstance(areas, list) and areas:
      st.markdown("<div style='margin-top:10px;'><b>Areas</b></div>", unsafe_allow_html=True)
      for a in areas:
          st.markdown(f"- {a}")
  \<close>
\<close>

definition areas_list :: "pyval \<Rightarrow> ui list" where
  "areas_list areas =
     (case areas of
        PList xs \<Rightarrow> if xs \<noteq> [] then Markdown ''<b>Areas</b>'' # map Bullet xs else []
      | _ \<Rightarrow> [])"

text \<open>
  \<^verbatim>\<open>data.get(name, {}) or {}\<close>, on the dict \<open>data\<close>.
\<close>

definition section_of :: "(string \<times> pyval) list \<Rightarrow> string \<Rightarrow> pyval" where
  "section_of data name = py_or (dict_get data name (PDict [])) (PDict [])"

text \<open>
  The summary row:
  \<^verbatim>\<open>
  st.metric("Vehicle", f"{vehicle.get('make','')} {vehicle.get('model','')}".strip() or "N/A")
  st.metric("Year", vehicle.get("year", "N/A"))
  st.metric("OCR Characters", meta.get("ocr_characters", "N/A"))
  wf = meta.get("workflow", "N/A")
  st.metric("Workflow", wf)
  \<close>
\<close>

definition vehicle_title :: "(pyval \<Rightarrow> string) \<Rightarrow> pyval \<Rightarrow> exn + pyval" where
  "vehicle_title repr vehicle =
     bind (py_get vehicle ''make'' (PStr [])) (\<lambda>mk.
     bind (py_get vehicle ''model'' (PStr [])) (\<lambda>md.
     Inr (PStr (str_or (Some (py_strip (py_str repr mk @ '' '' @ py_str repr md))) ''N/A''))))"

definition summary_row :: "(pyval \<Rightarrow> string) \<Rightarrow> pyval \<Rightarrow> pyval \<Rightarrow> exn + ui list" where
  "summary_row repr vehicle meta =
     bind (vehicle_title repr vehicle) (\<lambda>title.
     bind (st_metric ''Vehicle'' title) (\<lambda>m1.
     bind (py_get vehicle ''year'' (PStr ''N/A'')) (\<lambda>year.
     bind (st_metric ''Year'' year) (\<lambda>m2.
     bind (py_get meta ''ocr_characters'' (PStr ''N/A'')) (\<lambda>ocr.
     bind (st_metric ''OCR Characters'' ocr) (\<lambda>m3.
     bind (py_get meta ''workflow'' (PStr ''N/A'')) (\<lambda>wf.
     bind (st_metric ''Workflow'' wf) (\<lambda>m4.
     Inr [m1, m2, m3, m4]))))))))"

definition vehicle_card :: "pyval \<Rightarrow> exn + ui list" where
  \<open>vehicle_card vehicle =
     bind (py_get vehicle ''make'' (PStr ''N/A'')) (\<lambda>mk.
     bind (py_get vehicle ''model'' (PStr ''N/A'')) (\<lambda>md.
     bind (py_get vehicle ''color'' (PStr ''N/A'')) (\<lambda>col.
     bind (py_get vehicle ''year'' (PStr ''N/A'')) (\<lambda>year.
     Inr [Markdown ''<div class="card">'',
          Markdown ''<div class="card-title">Vehicle Information</div>'',
          KeyValues [(''Make'', mk), (''Model'', md), (''Color'', col), (''Year'', year)],
          Markdown ''</div>'']))))\<close>

definition incident_card :: "pyval \<Rightarrow> exn + ui list" where
  \<open>incident_card incident =
     bind (py_get incident ''date'' (PStr ''N/A'')) (\<lambda>date.
     bind (py_get incident ''location'' (PStr ''N/A'')) (\<lambda>loc.
     bind (py_get incident ''description'' (PStr ''N/A'')) (\<lambda>desc.
     Inr [Markdown [],
          Markdown ''<div class="card">'',
          Markdown ''<div class="card-title">Incident Details</div>'',
          KeyValues [(''Date'', date), (''Location'', loc)],
          Markdown ''<b>Description</b>'',
          Write desc,
          Markdown ''</div>''])))\<close>

definition damage_card :: "(pyval \<Rightarrow> string) \<Rightarrow> pyval \<Rightarrow> exn + ui list" where
  \<open>damage_card repr damage =
     bind (py_get damage ''severity'' (PStr ''N/A'')) (\<lambda>sev.
     bind (py_get damage ''estimated_cost'' PNone) (\<lambda>est.
     bind (py_get damage ''affected_areas'' (PList [])) (\<lambda>got.
     (let areas = py_or got (PList []);
          sev_html = severity_pill (Some (py_str repr sev))
      in bind (cost_cell est) (\<lambda>cost.
         Inr ([Markdown ''<div class="card">'',
               Markdown ''<div class="card-title">Damage Assessment</div>'',
               KeyValues [(''Severity'', PStr sev_html), (''Estimated Cost'', cost),
                          (''Affected Areas'', areas_cell areas)]]
              @ areas_list areas
              @ [Markdown ''</div>'']))))))\<close>

definition metadata_card :: "pyval \<Rightarrow> exn + ui list" where
  \<open>metadata_card meta =
     bind (py_get meta ''source_image'' (PStr ''N/A'')) (\<lambda>src.
     Inr [Markdown [],
          Markdown ''<div class="card">'',
          Markdown ''<div class="card-title">Trace & Metadata</div>'',
          KeyValues [(''Source Image'', src)],
          Markdown ''</div>''])\<close>

text \<open>
  \<^verbatim>\<open>
  def display_results(data: dict):
      if not data:
          return
      vehicle = data.get("vehicle_info", {}) or {}
      damage = data.get("damage_assessment", {}) or {}
      incident = data.get("incident_info", {}) or {}
      meta = data.get("metadata", {}) or {}
      ...
  \<close>
  The summary row comes first, then the vehicle and incident cards of the left
  column, then the damage and metadata cards of the right one.
\<close>

definition display_results :: "(pyval \<Rightarrow> string) \<Rightarrow> pyval \<Rightarrow> exn + ui list" where
  \<open>display_results repr data =
     (if \<not> truthy data then Inr []
      else
        bind (py_get data ''vehicle_info'' (PDict [])) (\<lambda>v.
        bind (py_get data ''damage_assessment'' (PDict [])) (\<lambda>d.
        bind (py_get data ''incident_info'' (PDict [])) (\<lambda>i.
        bind (py_get data ''metadata'' (PDict [])) (\<lambda>m.
        (let vehicle = py_or v (PDict []);
             damage = py_or d (PDict []);
             incident = py_or i (PDict []);
             meta = py_or m (PDict [])
         in bind (summary_row repr vehicle meta) (\<lambda>summary.
            bind (vehicle_card vehicle) (\<lambda>vc.
            bind (incident_card incident) (\<lambda>ic.
            bind (damage_card repr damage) (\<lambda>dc.
            bind (metadata_card meta) (\<lambda>mc.
            Inr ([Markdown ''<div class="section-h">Claim Summary</div>''] @ summary
                 @ [Markdown []] @ vc @ ic @ dc @ mc))))))))))))\<close>

text \<open>
  The results part of \<open>main\<close>, once \<open>process_claim\<close> has returned \<open>result\<close>:
  \<^verbatim>\<open>
  if result.get("success"):
      status.update(label="Processing complete", state="complete")
  else:
      status.update(label="Processing failed", state="error")
  st.divider()
  st.markdown('<div class="section-h">Results</div>', unsafe_allow_html=True)
  st.markdown('<p class="section-p">Structured claim ...</p>', unsafe_allow_html=True)
  if result.get("success"):
      st.markdown('<span class="pill pill-ok">Success</span>', unsafe_allow_html=True)
      st.markdown("")
      display_results(result.get("data", {}))
      st.markdown("")
      with st.expander("View raw JSON"):
          st.json(result)
  else:
      st.markdown('<span class="pill pill-bad">Error</span>', unsafe_allow_html=True)
      st.error(result.get("error", "Unknown error"))
  \<close>
\<close>

definition show_result :: "(pyval \<Rightarrow> string) \<Rightarrow> pyval \<Rightarrow> exn + ui list" where
  \<open>show_result repr result =
     bind (py_get result ''success'' PNone) (\<lambda>ok.
     (let status = (if truthy ok then StatusUpdate ''Processing complete'' ''complete''
                    else StatusUpdate ''Processing failed'' ''error'');
          heading = [status, Divider,
                     Markdown ''<div class="section-h">Results</div>'',
                     Markdown ''<p class="section-p">Structured claim information extracted from the image.</p>'']
      in bind (py_get result ''success'' PNone) (\<lambda>ok.
         if truthy ok
         then bind (py_get result ''data'' (PDict [])) (\<lambda>data.
              bind (display_results repr data) (\<lambda>panels.
              Inr (heading
                   @ [Markdown ''<span class="pill pill-ok">Success</span>'', Markdown []]
                   @ panels
                   @ [Markdown [], Expander ''View raw JSON'' [Json result]])))
         else bind (py_get result ''error'' (PStr ''Unknown error'')) (\<lambda>msg.
              Inr (heading
                   @ [Markdown ''<span class="pill pill-bad">Error</span>'', ErrorBox msg])))))\<close>

text \<open>
  The values a sequence of elements displays, with their labels: the metrics, the rows
  of the key/value blocks, and the incident description.
\<close>

fun cells :: "ui list \<Rightarrow> (string \<times> pyval) list" where
  "cells [] = []"
| "cells (Metric label v # us) = (label, v) # cells us"
| "cells (KeyValues rows # us) = rows @ cells us"
| "cells (Write v # us) = (''Description'', v) # cells us"
| "cells (u # us) = cells us"

text \<open>
  The specification's \<open>fallback\<close>, applied to an optional field: the value, or
  \<open>N/A\<close> when the field is absent.
\<close>

definition fallback :: "pyval option \<Rightarrow> pyval" where
  "fallback field = (case field of None \<Rightarrow> PStr ''N/A'' | Some v \<Rightarrow> v)"

text \<open>
  A stand-in for \<^verbatim>\<open>repr\<close>, to run the renderer on concrete payloads that hold no
  float, list or dict where a string is made.
\<close>

definition type_repr :: "pyval \<Rightarrow> string" where
  "type_repr v = ''<'' @ type_name v @ ''>''"

section \<open>Facts about strings\<close>

lemma of_char_lower_char:
  "(of_char (lower_char c) :: nat) =
     (if (65 \<le> (of_char c :: nat) \<and> (of_char c :: nat) \<le> 90) \<or>
         (192 \<le> (of_char c :: nat) \<and> (of_char c :: nat) \<le> 222 \<and> (of_char c :: nat) \<noteq> 215)
      then of_char c + 32 else of_char c)"
  by (auto simp: lower_char_def Let_def)

lemma char_eq_nat: "(c = d) = ((of_char c :: nat) = of_char d)"
  by simp

text \<open>Lower-casing never turns a blank into a letter or a letter into a blank.\<close>

lemma isspace_lower_char: "py_isspace (lower_char c) = py_isspace c"
  unfolding py_isspace_def Let_def of_char_lower_char by auto

lemma lower_char_dot: "lower_char c = CHR ''.'' \<longleftrightarrow> c = CHR ''.''"
  unfolding char_eq_nat of_char_lower_char by auto

lemma lower_char_p: "lower_char c = CHR ''p'' \<longleftrightarrow> c = CHR ''p'' \<or> c = CHR ''P''"
  unfolding char_eq_nat of_char_lower_char by auto

lemma lower_char_n: "lower_char c = CHR ''n'' \<longleftrightarrow> c = CHR ''n'' \<or> c = CHR ''N''"
  unfolding char_eq_nat of_char_lower_char by auto

lemma lower_char_g: "lower_char c = CHR ''g'' \<longleftrightarrow> c = CHR ''g'' \<or> c = CHR ''G''"
  unfolding char_eq_nat of_char_lower_char by auto

lemma dropWhile_map_lower:
  "dropWhile py_isspace (map lower_char s) = map lower_char (dropWhile py_isspace s)"
  by (induction s) (auto simp: isspace_lower_char)

lemma py_lower_strip_commute: "py_lower (py_strip s) = py_strip (py_lower s)"
  by (simp add: py_lower_def py_strip_def py_rstrip_def py_lstrip_def dropWhile_map_lower rev_map)

lemma endswith_iff_rev: "endswith s suf \<longleftrightarrow> take (length suf) (rev s) = rev suf"
proof
  assume "endswith s suf"
  then have le: "length suf \<le> length s" and d: "drop (length s - length suf) s = suf"
    by (simp_all add: endswith_def)
  have "rev suf = rev (drop (length s - length suf) s)" using d by simp
  also have "\<dots> = take (length s - (length s - length suf)) (rev s)" by (simp add: rev_drop)
  finally show "take (length suf) (rev s) = rev suf" using le by simp
next
  assume a: "take (length suf) (rev s) = rev suf"
  have "length (take (length suf) (rev s)) = length (rev suf)" using a by simp
  then have le: "length suf \<le> length s" by simp
  have "rev (drop (length s - length suf) s) = take (length s - (length s - length suf)) (rev s)"
    by (simp add: rev_drop)
  also have "\<dots> = rev suf" using a le by simp
  finally have "drop (length s - length suf) s = suf" by simp
  with le show "endswith s suf" by (simp add: endswith_def)
qed

lemma rstrip_chars_idem: "rstrip_chars cs (rstrip_chars cs s) = rstrip_chars cs s"
  by (simp add: rstrip_chars_def)

lemma hd_dropWhile_slash:
  "dropWhile (\<lambda>c. c = CHR ''/'') xs = y # ys \<Longrightarrow> y \<noteq> CHR ''/''"
  using hd_dropWhile [of "\<lambda>c. c = CHR ''/''" xs] by auto

lemma rstrip_slash_eq: "rstrip_chars ''/'' s = rev (dropWhile (\<lambda>c. c = CHR ''/'') (rev s))"
  by (simp add: rstrip_chars_def)

lemma rstrip_chars_no_trailing: "\<not> endswith (rstrip_chars ''/'' s) ''/''"
proof (cases "dropWhile (\<lambda>c. c = CHR ''/'') (rev s)")
  case Nil
  have "rstrip_chars ''/'' s = []" unfolding rstrip_slash_eq Nil by simp
  then show ?thesis by (simp add: endswith_def)
next
  case (Cons y ys)
  then have y: "y \<noteq> CHR ''/''" by (rule hd_dropWhile_slash)
  have "rstrip_chars ''/'' s = rev ys @ [y]" unfolding rstrip_slash_eq Cons by simp
  with y show ?thesis by (simp add: endswith_iff_rev)
qed

lemma endswith_png_lower: "endswith (py_lower name) ''.png'' \<longleftrightarrow> ends_with_png_ci name"
  by (auto simp: endswith_iff_rev py_lower_def ends_with_png_ci_def rev_map
        lower_char_dot lower_char_p lower_char_n lower_char_g split: list.splits)

text \<open>
  The string functions of the program agree with the specification's wording: the
  blanks \<^verbatim>\<open>str.strip\<close> removes are the listed ones, and lower-casing gives a keyword
  exactly for the inputs that spell it in any mix of cases.
\<close>

lemma isspace_blank: "py_isspace c = (c \<in> set blank_chars)"
  unfolding py_isspace_def Let_def blank_chars_def
  by (simp add: char_eq_nat [of c]) arith

lemma lstrip_trim_left: "py_lstrip s = trim_left s"
  by (induction s) (simp_all add: py_lstrip_def isspace_blank)

lemma rstrip_trim_right: "py_rstrip s = trim_right s"
proof (induction s)
  case Nil
  show ?case by (simp add: py_rstrip_def)
next
  case (Cons c cs)
  have ih: "rev (dropWhile py_isspace (rev cs)) = trim_right cs"
    using Cons.IH by (simp add: py_rstrip_def)
  show ?case
  proof (cases "\<forall>x\<in>set cs. py_isspace x")
    case True
    then have "dropWhile py_isspace (rev cs) = []" by simp
    with ih have "trim_right cs = []" by simp
    with True show ?thesis
      by (simp add: py_rstrip_def dropWhile_append isspace_blank)
  next
    case False
    then have ne: "dropWhile py_isspace (rev cs) \<noteq> []" by simp
    with ih have tr: "trim_right cs \<noteq> []" by auto
    have "dropWhile py_isspace (rev cs) = rev (trim_right cs)"
      using ih by (metis rev_rev_ident)
    with False tr show ?thesis
      by (simp add: py_rstrip_def dropWhile_append)
  qed
qed

lemma strip_trimmed: "py_strip s = trimmed s"
  by (simp add: py_strip_def trimmed_def lstrip_trim_left rstrip_trim_right)

lemma same_letter_all:
  "\<forall>k \<in> set ''abcdefghijklmnopqrstuvwxyz''.
     same_letter c k = ((of_char c :: nat) = of_char k \<or> (of_char c :: nat) + 32 = of_char k)
     \<and> 97 \<le> (of_char k :: nat) \<and> (of_char k :: nat) \<le> 122"
  unfolding same_letter_def
  by (simp add: char_eq_nat [of c] del: of_char_eq_iff)


lemma lower_char_same_letter:
  assumes "k \<in> set ''abcdefghijklmnopqrstuvwxyz''"
  shows "(lower_char c = k) = same_letter c k"
proof -
  from same_letter_all [of c] assms
  have k: "same_letter c k = ((of_char c :: nat) = of_char k \<or> (of_char c :: nat) + 32 = of_char k)"
      "97 \<le> (of_char k :: nat)" "(of_char k :: nat) \<le> 122"
    by blast+
  have "(lower_char c = k) = ((of_char (lower_char c) :: nat) = of_char k)" by simp
  also have "\<dots> = ((of_char c :: nat) = of_char k \<or> (of_char c :: nat) + 32 = of_char k)"
    unfolding of_char_lower_char using k(2,3) by (simp del: of_char_eq_iff) arith
  also have "\<dots> = same_letter c k" unfolding k(1) ..
  finally show ?thesis .
qed

lemma py_lower_keyword:
  "set kw \<subseteq> set ''abcdefghijklmnopqrstuvwxyz'' \<Longrightarrow> (py_lower w = kw) = list_all2 same_letter w kw"
proof (induction w arbitrary: kw)
  case Nil
  show ?case by (auto simp: py_lower_def)
next
  case (Cons c cs)
  show ?case
  proof (cases kw)
    case Nil
    then show ?thesis by (simp add: py_lower_def)
  next
    case (Cons k ks)
    with Cons.prems have k: "k \<in> set ''abcdefghijklmnopqrstuvwxyz''"
      and ks: "set ks \<subseteq> set ''abcdefghijklmnopqrstuvwxyz''" by simp_all
    from Cons.IH [OF ks] have "(map lower_char cs = ks) = list_all2 same_letter cs ks"
      by (simp add: py_lower_def)
    with lower_char_same_letter [OF k, of c] Cons show ?thesis
      by (simp add: py_lower_def)
  qed
qed

lemma py_lower_keywords:
  assumes "\<And>kw. kw \<in> set kws \<Longrightarrow> set kw \<subseteq> set ''abcdefghijklmnopqrstuvwxyz''"
  shows "(py_lower w \<in> set kws) = is_keyword w kws"
proof -
  have "is_keyword w kws = (\<exists>kw\<in>set kws. list_all2 same_letter w kw)"
    by (simp add: is_keyword_def list_ex_iff)
  also have "\<dots> = (\<exists>kw\<in>set kws. py_lower w = kw)"
    using assms by (metis py_lower_keyword)
  also have "\<dots> = (py_lower w \<in> set kws)" by auto
  finally show ?thesis ..
qed

lemma high_keywords:
  "(py_lower w \<in> set [''severe'', ''critical'', ''high'', ''significant''])
     = is_keyword w [''severe'', ''critical'', ''high'', ''significant'']"
  by (rule py_lower_keywords) auto

lemma medium_keywords:
  "(py_lower w \<in> set [''moderate'', ''medium'']) = is_keyword w [''moderate'', ''medium'']"
  by (rule py_lower_keywords) auto

lemma low_keywords:
  "(py_lower w \<in> set [''minor'', ''low'']) = is_keyword w [''minor'', ''low'']"
  by (rule py_lower_keywords) auto

lemma all_slashes: "(\<And>c. c \<in> set t \<Longrightarrow> c = CHR ''/'') \<Longrightarrow> t = replicate (length t) (CHR ''/'')"
  by (induction t) simp_all

lemma slashes_stripped_rstrip: "slashes_stripped s (rstrip_chars ''/'' s)"
proof -
  define t where "t = takeWhile (\<lambda>c. c = CHR ''/'') (rev s)"
  define d where "d = dropWhile (\<lambda>c. c = CHR ''/'') (rev s)"
  have r: "rstrip_chars ''/'' s = rev d" unfolding d_def by (rule rstrip_slash_eq)
  have "rev s = t @ d" unfolding t_def d_def by simp
  then have "rev (rev s) = rev (t @ d)" by (rule arg_cong)
  then have s: "s = rev d @ rev t" by simp
  have "rev t = replicate (length (rev t)) (CHR ''/'')"
    by (rule all_slashes) (auto simp: t_def dest: set_takeWhileD)
  then have rt: "rev t = replicate (length t) (CHR ''/'')" by simp
  have len: "length s - length (rev d) = length t"
    by (subst s) simp
  have tail: "take 1 (rev (rev d)) \<noteq> ''/''"
  proof (cases d)
    case Nil
    then show ?thesis by simp
  next
    case (Cons y ys)
    then have "y \<noteq> CHR ''/''" unfolding d_def by (rule hd_dropWhile_slash)
    with Cons show ?thesis by simp
  qed
  have "s = rev d @ replicate (length s - length (rev d)) (CHR ''/'')"
    unfolding len using s rt by simp
  with tail show ?thesis unfolding r slashes_stripped_def by blast
qed

section \<open>The API base URL\<close>

text \<open>
  Claim C7. The URL that \<open>get_api_url\<close> resolves is the session's \<open>api_url\<close> when the
  session has one, else the value of the environment variable \<open>API_URL\<close> when it is
  set, else the built-in address, in each case with its trailing slashes stripped and
  nothing else changed. The sidebar takes the text of the field (what the user typed,
  or the resolved URL), trims it and strips its trailing slashes the same way, and
  that URL is the one it stores in the session and uses.
\<close>

theorem get_api_url_precedence:
  "slashes_stripped
     (case api_url st of
        Some override \<Rightarrow> override
      | None \<Rightarrow> (case environ ''API_URL'' of Some v \<Rightarrow> v | None \<Rightarrow> BUILTIN_API_URL))
     (snd (get_api_url environ st))
   \<and> slashes_stripped
       (trimmed (case typed of Some t \<Rightarrow> t | None \<Rightarrow> snd (get_api_url environ st)))
       (snd (sidebar_api_url environ st typed))
   \<and> api_url (fst (sidebar_api_url environ st typed))
       = Some (snd (sidebar_api_url environ st typed))"
proof -
  have g: "snd (get_api_url environ st) =
     rstrip_chars ''/''
       (case api_url st of
          Some override \<Rightarrow> override
        | None \<Rightarrow> (case environ ''API_URL'' of Some v \<Rightarrow> v | None \<Rightarrow> BUILTIN_API_URL))"
    by (cases "api_url st")
       (simp_all add: get_api_url_def DEFAULT_API_URL_def rstrip_chars_idem)
  have u: "snd (sidebar_api_url environ st typed) =
     rstrip_chars ''/''
       (trimmed (case typed of Some t \<Rightarrow> t | None \<Rightarrow> snd (get_api_url environ st)))"
    by (simp add: sidebar_api_url_def Let_def text_input_def strip_trimmed
          split: prod.splits option.splits)
  have st: "api_url (fst (sidebar_api_url environ st typed))
       = Some (snd (sidebar_api_url environ st typed))"
    by (simp add: sidebar_api_url_def Let_def split: prod.splits)
  have 1: "slashes_stripped
     (case api_url st of
        Some override \<Rightarrow> override
      | None \<Rightarrow> (case environ ''API_URL'' of Some v \<Rightarrow> v | None \<Rightarrow> BUILTIN_API_URL))
     (snd (get_api_url environ st))"
    by (subst g) (rule slashes_stripped_rstrip)
  have 2: "slashes_stripped
       (trimmed (case typed of Some t \<Rightarrow> t | None \<Rightarrow> snd (get_api_url environ st)))
       (snd (sidebar_api_url environ st typed))"
    by (subst u) (rule slashes_stripped_rstrip)
  from 1 2 st show ?thesis by blast
qed

text \<open>
  The three levels of precedence on concrete inputs: a session override wins over the
  environment, the environment over the built-in address, and the slashes go.
\<close>

theorem get_api_url_precedence_witness:
  "snd (get_api_url [''API_URL'' \<mapsto> ''http://env:1/''] \<lparr>api_url = Some ''http://sess//''\<rparr>)
     = ''http://sess''
   \<and> snd (get_api_url [''API_URL'' \<mapsto> ''http://env:1/''] \<lparr>api_url = None\<rparr>) = ''http://env:1''
   \<and> snd (get_api_url Map.empty \<lparr>api_url = None\<rparr>) = BUILTIN_API_URL
   \<and> snd (sidebar_api_url Map.empty \<lparr>api_url = None\<rparr> (Some '' http://localhost:8080/ ''))
       = ''http://localhost:8080''
   \<and> slashes_stripped ''http://sess//''
        (snd (get_api_url [''API_URL'' \<mapsto> ''http://env:1/''] \<lparr>api_url = Some ''http://sess//''\<rparr>))"
  using get_api_url_precedence
    [where st = "\<lparr>api_url = Some ''http://sess//''\<rparr>"
       and environ = "[''API_URL'' \<mapsto> ''http://env:1/'']" and typed = None]
  by (simp add: get_api_url_def DEFAULT_API_URL_def rstrip_chars_def BUILTIN_API_URL_def
        sidebar_api_url_def text_input_def py_strip_def py_lstrip_def py_rstrip_def
        py_isspace_def Let_def)

section \<open>The mime type\<close>

text \<open>
  Claim C6. The mime type sent with the upload is \<open>image/png\<close> exactly when the file
  name ends with \<open>.png\<close> in any mix of upper and lower case, and \<open>image/jpeg\<close> for
  every other file name.
\<close>

theorem infer_mime_png_iff:
  "infer_mime name = (if ends_with_png_ci name then ''image/png'' else ''image/jpeg'')"
  by (simp add: infer_mime_def endswith_png_lower)

lemma infer_mime_examples:
  "infer_mime ''photo.PNG'' = ''image/png''
   \<and> infer_mime ''photo.jpg'' = ''image/jpeg''
   \<and> infer_mime ''photo.jpeg'' = ''image/jpeg''"
  by (simp add: infer_mime_def py_lower_def lower_char_def endswith_def char_of_eq_iff)

section \<open>Severity classification\<close>

text \<open>
  Claim C1. \<open>severity_pill\<close> is the markup of the specification's classification: the
  input is trimmed and compared with the keywords without regard to case, which give
  the labels High, Medium and Low in their tiers; any other non-empty string is the
  label itself, as it was passed, in the neutral tier; the empty string and \<open>None\<close>
  give \<open>N/A\<close> in the neutral tier.
\<close>

theorem severity_pill_classify: "severity_pill severity = pill_html (classify_severity severity)"
proof -
  have s: "str_or severity [] = (case severity of None \<Rightarrow> [] | Some x \<Rightarrow> x)"
    by (simp add: str_or_def split: option.splits)
  have l: "str_or severity ''N/A'' =
      (case severity of None \<Rightarrow> ''N/A'' | Some x \<Rightarrow> if x = [] then ''N/A'' else x)"
    by (simp add: str_or_def)
  show ?thesis
    unfolding severity_pill_def classify_severity_def s l Let_def
      high_keywords medium_keywords low_keywords strip_trimmed
    by (simp add: pill_html_def split: option.splits)
qed

text \<open>The inputs of the specification's examples, and one that is not a keyword.\<close>

theorem severity_pill_classify_witness:
  \<open>severity_pill (Some ''Severe'') = ''<span class="pill pill-bad">High</span>''
   \<and> severity_pill (Some ''  high  '') = ''<span class="pill pill-bad">High</span>''
   \<and> severity_pill (Some ''CRITICAL'') = ''<span class="pill pill-bad">High</span>''
   \<and> severity_pill (Some ''Medium'') = ''<span class="pill pill-warn">Medium</span>''
   \<and> severity_pill (Some ''LOW'') = ''<span class="pill pill-ok">Low</span>''
   \<and> severity_pill (Some '' unknown'') = ''<span class="pill pill-neutral"> unknown</span>''
   \<and> severity_pill (Some []) = ''<span class="pill pill-neutral">N/A</span>''
   \<and> severity_pill None = ''<span class="pill pill-neutral">N/A</span>''\<close>
  unfolding severity_pill_classify
  by (simp add: classify_severity_def pill_html_def trimmed_def blank_chars_def is_keyword_def
        same_letter_def)

section \<open>The API client never raises\<close>



text \<open>
  Claim C5. \<open>process_claim\<close> never raises. On a 2xx response with a body that parses
  it returns the parsed body as it is (its \<open>success\<close> flag is the body's own); in
  every other case it returns \<open>{success: False, error: str(e)}\<close>.
\<close>

theorem process_claim_result:
  "process_claim client_post base_url file_content filename mime =
     Inr (case client_post (base_url @ ''/process-claim/upload'')
                 [(''file'', (filename, file_content, mime))] of
            Raises e \<Rightarrow> PDict [(''success'', PBool False), (''error'', PStr (str_exn e))]
          | Returns r \<Rightarrow>
              if 200 \<le> status_code r \<and> status_code r \<le> 299
              then (case json r of
                      Inr body \<Rightarrow> body
                    | Inl e \<Rightarrow> PDict [(''success'', PBool False), (''error'', PStr (str_exn e))])
              else PDict [(''success'', PBool False), (''error'', PStr (status_error r))])"
  by (simp add: process_claim_def try_except_def bind_def request_def raise_for_status_def
        split: outcome.splits sum.splits)

section \<open>The affected-areas count\<close>

text \<open>
  Claim C2, as amended. The count shown is the length of the list when the field is a
  list, 0 when the field is absent, \<open>None\<close> or any other falsy value, and \<open>N/A\<close> when
  it is a truthy value that is not a list.
\<close>

theorem areas_cell_cases:
  "areas_cell (affected_areas damage) =
     (case map_of damage ''affected_areas'' of
        None \<Rightarrow> PInt 0
      | Some v \<Rightarrow>
          if \<not> truthy v then PInt 0
          else (case v of PList xs \<Rightarrow> PInt (int (length xs)) | _ \<Rightarrow> PStr ''N/A''))"
  by (simp add: areas_cell_def affected_areas_def dict_get_def py_or_def
        split: option.splits pyval.splits)

text \<open>An absent field and a \<open>None\<close> show 0, not \<open>N/A\<close>.\<close>

theorem areas_cell_absent_is_zero:
  "areas_cell (affected_areas []) = PInt 0
   \<and> areas_cell (affected_areas []) \<noteq> PStr ''N/A''
   \<and> areas_cell (affected_areas [(''affected_areas'', PNone)]) = PInt 0"
  by (simp add: areas_cell_def affected_areas_def dict_get_def py_or_def)

section \<open>Facts about number formatting\<close>

lemma is_digit_digit_char: "d < 10 \<Longrightarrow> is_digit (digit_char d)"
  unfolding is_digit_def digit_char_def by (rule nth_mem) simp

lemma digits_of_digits: "c \<in> set (digits_of n) \<Longrightarrow> is_digit c"
proof (induction n arbitrary: c rule: digits_of.induct)
  case (1 n)
  show ?case
  proof (cases "n < 10")
    case True
    with "1.prems" show ?thesis
      by (simp add: digits_of.simps [of n] is_digit_digit_char)
  next
    case False
    with "1.prems" have "c \<in> set (digits_of (n div 10)) \<or> c = digit_char (n mod 10)"
      by (auto simp: digits_of.simps [of n])
    with False "1.IH" show ?thesis
      by (auto simp: is_digit_digit_char)
  qed
qed

lemma digits_of_nonempty: "digits_of n \<noteq> []"
  by (simp add: digits_of.simps [of n])

lemma grouped_rev_commas_rev:
  "ds \<noteq> [] \<Longrightarrow> (\<And>c. c \<in> set ds \<Longrightarrow> is_digit c) \<Longrightarrow> grouped_rev (commas_rev ds)"
proof (induction ds rule: commas_rev.induct)
  case (1 a b c d ds)
  then show ?case by simp
qed simp_all

lemma unsigned_shape_fixed:
  assumes "a < 10" "b < 10"
  shows "unsigned_shape (commas (digits_of k) @ ''.'' @ [digit_char a, digit_char b])"
proof -
  have "grouped_rev (commas_rev (rev (digits_of k)))"
    by (rule grouped_rev_commas_rev) (simp_all add: digits_of_nonempty digits_of_digits)
  with assms show ?thesis
    by (simp add: unsigned_shape_def commas_def is_digit_digit_char)
qed

lemma money_shape_fixed2: "money_shape (fixed2 s c)"
proof -
  have u: "unsigned_shape (commas (digits_of (c div 100)) @ ''.''
             @ [digit_char (c mod 100 div 10), digit_char (c mod 10)])"
    by (rule unsigned_shape_fixed) simp_all
  show ?thesis
  proof (cases s)
    case True
    with u show ?thesis by (simp add: fixed2_def money_shape_def)
  next
    case False
    with u show ?thesis
      by (cases "commas (digits_of (c div 100))") (simp_all add: fixed2_def money_shape_def)
  qed
qed

lemma digit_val_digit_char: "d < 10 \<Longrightarrow> digit_val (digit_char d) = d"
proof -
  assume "d < 10"
  then have "d \<in> {0, 1, 2, 3, 4, 5, 6, 7, 8, 9}" by auto
  then show ?thesis by (auto simp: digit_char_def digit_val_def)
qed

lemma read_digits_of: "foldl (\<lambda>a c. 10 * a + digit_val c) 0 (digits_of n) = n"
proof (induction n rule: digits_of.induct)
  case (1 n)
  show ?case
  proof (cases "n < 10")
    case True
    then show ?thesis by (simp add: digits_of.simps [of n] digit_val_digit_char)
  next
    case False
    with "1.IH" show ?thesis by (simp add: digits_of.simps [of n] digit_val_digit_char)
  qed
qed

lemma comma_not_digit: "\<not> is_digit (CHR '','')" "\<not> is_digit (CHR ''.'')" "\<not> is_digit (CHR ''-'')"
  by (simp_all add: is_digit_def)

lemma filter_commas_rev:
  "(\<And>c. c \<in> set ds \<Longrightarrow> is_digit c) \<Longrightarrow> filter is_digit (commas_rev ds) = ds"
  by (induction ds rule: commas_rev.induct) (simp_all add: comma_not_digit)

lemma filter_commas:
  "(\<And>c. c \<in> set ds \<Longrightarrow> is_digit c) \<Longrightarrow> filter is_digit (commas ds) = ds"
  using filter_commas_rev [of "rev ds"] by (simp add: commas_def rev_filter [symmetric])

lemma cents_split: "10 * (10 * (c div 100) + c mod 100 div 10) + c mod 10 = (c::nat)"
proof -
  define x where "x = c div 100"
  define w where "w = c mod 100"
  define y where "y = w div 10"
  define z where "z = w mod 10"
  have zc: "z = c mod 10" unfolding z_def w_def by (simp add: mod_mod_cancel)
  have w: "w = 10 * y + z" unfolding y_def z_def by simp
  have c: "c = 100 * x + w" unfolding x_def w_def by simp
  have "10 * (10 * x + y) + z = c" unfolding c w by simp
  then show ?thesis unfolding x_def y_def zc w_def .
qed

lemma digits_value_fixed2: "digits_value (fixed2 s c) = c"
proof -
  have f: "filter is_digit (commas (digits_of (c div 100))) = digits_of (c div 100)"
    by (rule filter_commas) (rule digits_of_digits)
  have d: "is_digit (digit_char (c mod 100 div 10))" "is_digit (digit_char (c mod 10))"
    by (rule is_digit_digit_char, simp)+
  have "filter is_digit (fixed2 s c) =
          digits_of (c div 100) @ [digit_char (c mod 100 div 10), digit_char (c mod 10)]"
    by (simp add: fixed2_def f comma_not_digit d)
  then have "digits_value (fixed2 s c) = 10 * (10 * (c div 100) + c mod 100 div 10) + c mod 10"
    by (simp add: digits_value_def read_digits_of digit_val_digit_char)
  then show ?thesis by (simp only: cents_split)
qed

lemma bit_length_bound: "n < 2 ^ bit_length n"
proof (induction n rule: bit_length.induct)
  case (1 n)
  show ?case
  proof (cases "n = 0")
    case True
    then show ?thesis by simp
  next
    case False
    with "1.IH" have "n div 2 < 2 ^ bit_length (n div 2)" by simp
    then have "n < 2 * 2 ^ bit_length (n div 2)" by linarith
    with False show ?thesis by (simp add: bit_length.simps [of n])
  qed
qed

lemma bit_length_le: "n < 2 ^ k \<Longrightarrow> bit_length n \<le> k"
proof (induction n arbitrary: k rule: bit_length.induct)
  case (1 n)
  show ?case
  proof (cases "n = 0")
    case True
    then show ?thesis by (simp add: bit_length.simps [of 0])
  next
    case False
    with "1.prems" obtain j where k: "k = Suc j" by (cases k) auto
    with "1.prems" have "n div 2 < 2 ^ j" by auto
    with "1.IH" False have "bit_length (n div 2) \<le> j" by simp
    with False k show ?thesis by (simp add: bit_length.simps [of n])
  qed
qed

lemma pow_split: "53 < b \<Longrightarrow> (2::nat) ^ b = 2 ^ 53 * 2 ^ (b - 53)"
proof -
  assume "53 < b"
  then have "b = 53 + (b - 53)" by simp
  then have "(2::nat) ^ b = 2 ^ (53 + (b - 53))" by simp
  then show ?thesis by (simp only: power_add)
qed

lemma round_fits:
  assumes a: "a < 2 ^ 1023" and b53: "53 < bit_length a"
  shows "(a div 2 ^ (bit_length a - 53) + 1) * 2 ^ (bit_length a - 53) < 2 ^ 1024"
proof -
  define b where "b = bit_length a"
  define sh where "sh = b - 53"
  define q where "q = a div 2 ^ sh"
  define P where "P = (2::nat) ^ 53"
  define D where "D = (2::nat) ^ sh"
  have b: "b \<le> 1023" using a unfolding b_def by (rule bit_length_le)
  have split: "(2::nat) ^ b = P * D"
    unfolding sh_def P_def D_def using b53 [folded b_def] by (rule pow_split)
  have "a < 2 ^ b" unfolding b_def by (rule bit_length_bound)
  then have "a < P * D" unfolding split .
  then have "q < P" unfolding q_def D_def [symmetric] by (rule less_mult_imp_div_less)
  then have "q + 1 \<le> P" by simp
  then have "(q + 1) * D \<le> P * D" by (rule mult_le_mono1)
  also have "\<dots> = 2 ^ b" unfolding split ..
  also have "\<dots> \<le> 2 ^ 1023" using b by (rule power_increasing) simp
  also have "\<dots> < (2::nat) ^ 1024" by (rule power_strict_increasing) simp_all
  finally show ?thesis unfolding q_def D_def sh_def b_def .
qed

lemma float_of_int_small:
  assumes "\<bar>n\<bar> < 2 ^ 1023"
  shows "\<exists>m e. float_of_int n = Inr (Finite (n < 0) m e)"
proof (cases "bit_length (nat \<bar>n\<bar>) \<le> 53")
  case True
  then show ?thesis by (simp add: float_of_int_def)
next
  case False
  define a where "a = nat \<bar>n\<bar>"
  define d where "d = (2::nat) ^ (bit_length a - 53)"
  define q where "q = a div d"
  define q' where "q' = (if d < 2 * (a mod d) \<or> (2 * (a mod d) = d \<and> odd q) then q + 1 else q)"
  define B where "B = (2::nat) ^ 1024"
  have "nat \<bar>n\<bar> < nat (2 ^ 1023)" using assms by (simp only: nat_less_eq_zless abs_ge_zero)
  then have a: "a < 2 ^ 1023" unfolding a_def by (simp only: nat_power_eq nat_numeral zero_le_numeral)
  have b53: "53 < bit_length a" using False unfolding a_def by simp
  have up: "(q + 1) * d < B" unfolding q_def d_def B_def using a b53 by (rule round_fits)
  have "q * d \<le> (q + 1) * d" by simp
  then have "q * d < B" using up by (rule le_less_trans)
  with up have "q' * d < B" unfolding q'_def by simp
  then have fit: "\<not> B \<le> q' * d" by simp
  have "float_of_int n = Inr (Finite (n < 0) q' (int (bit_length a - 53)))"
    unfolding float_of_int_def Let_def a_def [symmetric] d_def [symmetric] q_def [symmetric]
      q'_def [symmetric] B_def [symmetric]
    using False [folded a_def] fit by (simp only: if_False)
  then show ?thesis by blast
qed

lemma cents_of_nearest:
  assumes "e < 0"
  shows "2 * \<bar>int (cents_of m e) * 2 ^ nat (- e) - 100 * int m\<bar> \<le> 2 ^ nat (- e)"
proof -
  define d where "d = (2::nat) ^ nat (- e)"
  define q where "q = (m * 100) div d"
  define r where "r = (m * 100) mod d"
  have dpos: "0 < d" unfolding d_def by simp
  have r: "r < d" unfolding r_def using dpos by simp
  have m: "m * 100 = q * d + r" unfolding q_def r_def by simp
  have c: "cents_of m e = (if d < 2 * r \<or> (2 * r = d \<and> odd q) then q + 1 else q)"
    using assms unfolding cents_of_def Let_def d_def q_def r_def by simp
  have mi: "100 * int m = int q * int d + int r" using m by (metis mult.commute of_nat_add of_nat_mult of_nat_numeral)
  have "2 * \<bar>int (cents_of m e) * int d - 100 * int m\<bar> \<le> int d"
  proof (cases "d < 2 * r \<or> (2 * r = d \<and> odd q)")
    case True
    then have "cents_of m e = q + 1" unfolding c by (simp only: if_True)
    then have "int (cents_of m e) * int d - 100 * int m = int d - int r"
      unfolding mi by (simp add: algebra_simps)
    moreover have "int d \<le> 2 * int r" using True by auto
    moreover have "int r < int d" using r by simp
    ultimately show ?thesis by simp
  next
    case False
    then have "cents_of m e = q" unfolding c by (simp only: if_False)
    then have "int (cents_of m e) * int d - 100 * int m = - int r"
      unfolding mi by simp
    moreover have "2 * int r \<le> int d" using False by auto
    ultimately show ?thesis by simp
  qed
  then show ?thesis unfolding d_def by simp
qed

lemma shown_as_money_float: "shown_as_money (cost_cell (PFloat (Finite s m e)))"
  by (simp add: shown_as_money_def cost_cell_def money_shape_fixed2)

lemma shown_as_money_int:
  assumes "\<bar>n\<bar> < 2 ^ 1023"
  shows "shown_as_money (cost_cell (PInt n))"
proof -
  from float_of_int_small [OF assms] obtain m e
    where "float_of_int n = Inr (Finite (n < 0) m e)" by blast
  then show ?thesis
    by (simp add: shown_as_money_def cost_cell_def bind_def money_shape_fixed2)
qed

lemma bit_length_1: "bit_length (Suc 0) = 1"
  by (simp add: bit_length.simps [of "Suc 0"] bit_length.simps [of 0])

lemma cost_cell_bool:
  "cost_cell (PBool b) = Inr (PStr (''$'' @ fixed2 False (if b then 100 else 0)))"
  by (simp add: cost_cell_def float_of_int_def bind_def bit_length_1 bit_length.simps [of 0]
        cents_of_def)

lemma cost_cell_exact_int:
  assumes "\<bar>n\<bar> < 2 ^ 53"
  shows "cost_cell (PInt n) = Inr (PStr (''$'' @ fixed2 (n < 0) (100 * nat \<bar>n\<bar>)))"
proof -
  have "nat \<bar>n\<bar> < nat (2 ^ 53)" using assms by (simp only: nat_less_eq_zless abs_ge_zero)
  then have "nat \<bar>n\<bar> < 2 ^ 53" by (simp only: nat_power_eq nat_numeral zero_le_numeral)
  then have "bit_length (nat \<bar>n\<bar>) \<le> 53" by (rule bit_length_le)
  then show ?thesis
    by (simp add: cost_cell_def float_of_int_def bind_def cents_of_def mult.commute)
qed

section \<open>The estimated cost\<close>

text \<open>
  Claim C3, as amended. A cost that is a finite float is shown as a dollar sign and the
  amount with thousands separators and exactly two decimals: the amount is the value
  rounded to the nearest cent (ties to even), and its digits read back give the cents.
  An int of magnitude below \<open>2^1023\<close> is shown in the same shape, exactly when below
  \<open>2^53\<close>, and a bool as 1 or 0. A cost that is a str, a list or a dict is shown as it
  is, and \<open>None\<close> or an absent field as \<open>N/A\<close>.
\<close>

theorem cost_cell_cases:
  "shown_as_money (cost_cell (PFloat (Finite s m e)))
   \<and> cost_cell (PFloat (Finite s m e)) = Inr (PStr (''$'' @ fixed2 s (cents_of m e)))
   \<and> digits_value (fixed2 s (cents_of m e)) = cents_of m e
   \<and> (e < 0 \<longrightarrow> 2 * \<bar>int (cents_of m e) * 2 ^ nat (- e) - 100 * int m\<bar> \<le> 2 ^ nat (- e))
   \<and> (\<bar>n\<bar> < 2 ^ 1023 \<longrightarrow> shown_as_money (cost_cell (PInt n)))
   \<and> (\<bar>n\<bar> < 2 ^ 53 \<longrightarrow>
        cost_cell (PInt n) = Inr (PStr (''$'' @ fixed2 (n < 0) (100 * nat \<bar>n\<bar>))))
   \<and> cost_cell (PBool b) = Inr (PStr (''$'' @ fixed2 False (if b then 100 else 0)))
   \<and> cost_cell (PStr x) = Inr (PStr x)
   \<and> cost_cell (PList xs) = Inr (PList xs)
   \<and> cost_cell (PDict d) = Inr (PDict d)
   \<and> cost_cell PNone = Inr (PStr ''N/A'')
   \<and> (map_of damage ''estimated_cost'' = None \<longrightarrow>
        cost_cell (dict_get damage ''estimated_cost'' PNone) = Inr (PStr ''N/A''))"
proof -
  have raw: "cost_cell (PStr x) = Inr (PStr x)" "cost_cell (PList xs) = Inr (PList xs)"
    "cost_cell (PDict d) = Inr (PDict d)" "cost_cell PNone = Inr (PStr ''N/A'')"
    "cost_cell (PFloat (Finite s m e)) = Inr (PStr (''$'' @ fixed2 s (cents_of m e)))"
    by (simp_all add: cost_cell_def)
  have absent: "map_of damage ''estimated_cost'' = None \<longrightarrow>
        cost_cell (dict_get damage ''estimated_cost'' PNone) = Inr (PStr ''N/A'')"
    by (simp add: dict_get_def cost_cell_def)
  from raw absent show ?thesis
    using shown_as_money_float [of s m e] digits_value_fixed2 [of s "cents_of m e"]
      cents_of_nearest [of e m] shown_as_money_int [of n] cost_cell_exact_int [of n]
      cost_cell_bool [of b]
    by blast
qed

text \<open>
  The amounts of the specification's examples: 4500 and 1234.5 (which is
  \<open>2469 * 2^-1\<close>).
\<close>

theorem cost_cell_cases_witness:
  "\<bar>4500::int\<bar> < 2 ^ 1023 \<and> \<bar>4500::int\<bar> < 2 ^ 53 \<and> (-1::int) < 0
   \<and> map_of ([]::(string \<times> pyval) list) ''estimated_cost'' = None
   \<and> shown_as_money (cost_cell (PInt 4500))
   \<and> cost_cell (PInt 4500) = Inr (PStr ''$4,500.00'')
   \<and> cost_cell (PFloat (Finite False 2469 (-1))) = Inr (PStr ''$1,234.50'')
   \<and> cost_cell (PStr ''pending'') = Inr (PStr ''pending'')
   \<and> cost_cell (dict_get [] ''estimated_cost'' PNone) = Inr (PStr ''N/A'')"
  using cost_cell_cases [of False 2469 "-1" 4500 True "''pending''" "[]" "[]" "[]"]
  by (simp add: cents_of_def fixed2_def commas_def digit_char_def digits_of.simps
        shown_as_money_def money_shape_def unsigned_shape_def is_digit_def)

text \<open>
  An infinite float is numeric and has no decimals: \<^verbatim>\<open>1e999\<close> in the response reads as
  infinity and is shown as \<open>$inf\<close>.
\<close>

theorem cost_cell_infinity:
  "cost_cell (PFloat (Inf False)) = Inr (PStr ''$inf'')
   \<and> \<not> shown_as_money (cost_cell (PFloat (Inf False)))"
  by (simp add: cost_cell_def shown_as_money_def money_shape_def unsigned_shape_def is_digit_def)

section \<open>Facts about the renderer\<close>

lemma py_get_dict: "py_get (PDict d) k dflt = Inr (dict_get d k dflt)"
  by (simp add: py_get_def)

lemma dict_get_fallback: "dict_get d k (PStr ''N/A'') = fallback (map_of d k)"
  by (simp add: dict_get_def fallback_def)

lemma bind_Inr: "bind (Inr x) f = f x"
  by (simp add: bind_def)

lemma bind_Inl: "bind (Inl e) f = Inl e"
  by (simp add: bind_def)

lemma section_of_absent_or_null:
  "map_of data name = None \<or> map_of data name = Some PNone \<Longrightarrow> section_of data name = PDict []"
  by (auto simp: section_of_def dict_get_def py_or_def)

lemma section_of_dict:
  "map_of data name = Some (PDict d) \<Longrightarrow> section_of data name = PDict d"
  by (auto simp: section_of_def dict_get_def py_or_def)

lemma summary_row_dict:
  assumes "metric_accepts (fallback (map_of vehicle ''year''))"
    and "metric_accepts (fallback (map_of meta ''ocr_characters''))"
    and "metric_accepts (fallback (map_of meta ''workflow''))"
  shows "summary_row repr (PDict vehicle) (PDict meta) =
     Inr [Metric ''Vehicle''
            (PStr (str_or (Some (py_strip (py_str repr (dict_get vehicle ''make'' (PStr []))
                      @ '' '' @ py_str repr (dict_get vehicle ''model'' (PStr []))))) ''N/A'')),
          Metric ''Year'' (fallback (map_of vehicle ''year'')),
          Metric ''OCR Characters'' (fallback (map_of meta ''ocr_characters'')),
          Metric ''Workflow'' (fallback (map_of meta ''workflow''))]"
  using assms
  by (simp add: summary_row_def vehicle_title_def py_get_dict bind_Inr st_metric_def
        dict_get_fallback)

lemma vehicle_card_dict:
  "map_sum id cells (vehicle_card (PDict vehicle)) =
     Inr [(''Make'', fallback (map_of vehicle ''make'')),
          (''Model'', fallback (map_of vehicle ''model'')),
          (''Color'', fallback (map_of vehicle ''color'')),
          (''Year'', fallback (map_of vehicle ''year''))]"
  by (simp add: vehicle_card_def py_get_dict bind_Inr dict_get_fallback)

lemma incident_card_dict:
  "map_sum id cells (incident_card (PDict incident)) =
     Inr [(''Date'', fallback (map_of incident ''date'')),
          (''Location'', fallback (map_of incident ''location'')),
          (''Description'', fallback (map_of incident ''description''))]"
  by (simp add: incident_card_def py_get_dict bind_Inr dict_get_fallback)

lemma cells_append: "cells (xs @ ys) = cells xs @ cells ys"
  by (induction xs rule: cells.induct) simp_all

lemma cells_areas_list: "cells (areas_list areas) = []"
proof -
  have "cells (map Bullet xs) = []" for xs by (induction xs) simp_all
  then show ?thesis by (simp add: areas_list_def split: pyval.splits)
qed

lemma damage_card_dict:
  assumes "cost_cell (dict_get damage ''estimated_cost'' PNone) = Inr cost"
  shows "map_sum id cells (damage_card repr (PDict damage)) =
     Inr [(''Severity'', PStr (severity_pill (Some (py_str repr (fallback (map_of damage ''severity'')))))),
          (''Estimated Cost'', cost),
          (''Affected Areas'', areas_cell (affected_areas damage))]"
  using assms
  by (simp add: damage_card_def py_get_dict bind_Inr dict_get_fallback Let_def
        affected_areas_def cells_append cells_areas_list)

lemma metadata_card_dict:
  "map_sum id cells (metadata_card (PDict meta)) =
     Inr [(''Source Image'', fallback (map_of meta ''source_image''))]"
  by (simp add: metadata_card_def py_get_dict bind_Inr dict_get_fallback)

lemma map_sum_cells_Inr: "map_sum id cells m = Inr cs \<Longrightarrow> \<exists>us. m = Inr us \<and> cells us = cs"
  by (cases m) auto

lemmas run_defs = section_of_def dict_get_def py_or_def fallback_def cost_cell_def
  areas_cell_def affected_areas_def str_or_def py_strip_def py_lstrip_def py_rstrip_def
  py_isspace_def severity_pill_def py_lower_def lower_char_def

section \<open>Fallback values\<close>

text \<open>
  Claim C8, as amended. Take a payload that is a non-empty JSON object in which each
  of the four sections is absent, null (or another falsy value) or an object, so that
  the program's \<open>data.get(name, {}) or {}\<close> is a dict. Then rendering does not fail, as
  long as the values given to \<open>st.metric\<close> are of a type it accepts and the cost is
  not an int beyond the floats, and every value displayed is the field's value or, when
  the field is absent, the fallback \<open>N/A\<close>: for the vehicle summary \<open>N/A\<close> when make
  and model give a blank string, for the cost \<open>N/A\<close> also when it is \<open>None\<close>, for the
  affected areas the count 0.
\<close>

theorem display_results_fallbacks:
  assumes "data \<noteq> []"
    and "section_of data ''vehicle_info'' = PDict vehicle"
    and "section_of data ''damage_assessment'' = PDict damage"
    and "section_of data ''incident_info'' = PDict incident"
    and "section_of data ''metadata'' = PDict meta"
    and "metric_accepts (fallback (map_of vehicle ''year''))"
    and "metric_accepts (fallback (map_of meta ''ocr_characters''))"
    and "metric_accepts (fallback (map_of meta ''workflow''))"
    and "cost_cell (dict_get damage ''estimated_cost'' PNone) = Inr cost"
  shows "map_sum id cells (display_results repr (PDict data)) =
     Inr [(''Vehicle'',
            PStr (str_or (Some (py_strip (py_str repr (dict_get vehicle ''make'' (PStr []))
                      @ '' '' @ py_str repr (dict_get vehicle ''model'' (PStr []))))) ''N/A'')),
          (''Year'', fallback (map_of vehicle ''year'')),
          (''OCR Characters'', fallback (map_of meta ''ocr_characters'')),
          (''Workflow'', fallback (map_of meta ''workflow'')),
          (''Make'', fallback (map_of vehicle ''make'')),
          (''Model'', fallback (map_of vehicle ''model'')),
          (''Color'', fallback (map_of vehicle ''color'')),
          (''Year'', fallback (map_of vehicle ''year'')),
          (''Date'', fallback (map_of incident ''date'')),
          (''Location'', fallback (map_of incident ''location'')),
          (''Description'', fallback (map_of incident ''description'')),
          (''Severity'',
            PStr (severity_pill (Some (py_str repr (fallback (map_of damage ''severity'')))))),
          (''Estimated Cost'', cost),
          (''Affected Areas'', areas_cell (affected_areas damage)),
          (''Source Image'', fallback (map_of meta ''source_image''))]"
proof -
  obtain vc where vc: "vehicle_card (PDict vehicle) = Inr vc"
      "cells vc = [(''Make'', fallback (map_of vehicle ''make'')),
          (''Model'', fallback (map_of vehicle ''model'')),
          (''Color'', fallback (map_of vehicle ''color'')),
          (''Year'', fallback (map_of vehicle ''year''))]"
    using map_sum_cells_Inr [OF vehicle_card_dict] by blast
  obtain ic where ic: "incident_card (PDict incident) = Inr ic"
      "cells ic = [(''Date'', fallback (map_of incident ''date'')),
          (''Location'', fallback (map_of incident ''location'')),
          (''Description'', fallback (map_of incident ''description''))]"
    using map_sum_cells_Inr [OF incident_card_dict] by blast
  obtain dc where dc: "damage_card repr (PDict damage) = Inr dc"
      "cells dc = [(''Severity'', PStr (severity_pill (Some (py_str repr (fallback (map_of damage ''severity'')))))),
          (''Estimated Cost'', cost),
          (''Affected Areas'', areas_cell (affected_areas damage))]"
    using map_sum_cells_Inr [OF damage_card_dict [OF assms(9)]] by blast
  obtain mc where mc: "metadata_card (PDict meta) = Inr mc"
      "cells mc = [(''Source Image'', fallback (map_of meta ''source_image''))]"
    using map_sum_cells_Inr [OF metadata_card_dict] by blast
  note sr = summary_row_dict [OF assms(6) assms(7) assms(8), of repr]
  have secs: "py_or (dict_get data ''vehicle_info'' (PDict [])) (PDict []) = PDict vehicle"
    "py_or (dict_get data ''damage_assessment'' (PDict [])) (PDict []) = PDict damage"
    "py_or (dict_get data ''incident_info'' (PDict [])) (PDict []) = PDict incident"
    "py_or (dict_get data ''metadata'' (PDict [])) (PDict []) = PDict meta"
    using assms(2-5) by (simp_all add: section_of_def)
  show ?thesis
    using assms(1)
    by (simp add: display_results_def py_get_dict bind_Inr Let_def secs sr vc ic dc mc
          cells_append)
qed

text \<open>
  A payload with one field in one section, and a null section: everything else shows
  the fallback.
\<close>

theorem display_results_fallbacks_witness:
  \<open>map_sum id cells
     (display_results type_repr
        (PDict [(''vehicle_info'', PDict [(''make'', PStr ''Toyota'')]),
                (''damage_assessment'', PNone)])) =
     Inr [(''Vehicle'', PStr ''Toyota''),
          (''Year'', PStr ''N/A''),
          (''OCR Characters'', PStr ''N/A''),
          (''Workflow'', PStr ''N/A''),
          (''Make'', PStr ''Toyota''),
          (''Model'', PStr ''N/A''),
          (''Color'', PStr ''N/A''),
          (''Year'', PStr ''N/A''),
          (''Date'', PStr ''N/A''),
          (''Location'', PStr ''N/A''),
          (''Description'', PStr ''N/A''),
          (''Severity'', PStr ''<span class="pill pill-neutral">N/A</span>''),
          (''Estimated Cost'', PStr ''N/A''),
          (''Affected Areas'', PInt 0),
          (''Source Image'', PStr ''N/A'')]\<close>
  using display_results_fallbacks
    [of "[(''vehicle_info'', PDict [(''make'', PStr ''Toyota'')]), (''damage_assessment'', PNone)]"
        "[(''make'', PStr ''Toyota'')]" "[]" "[]" "[]" "PStr ''N/A''" type_repr]
  by (simp add: run_defs)

text \<open>
  A field that is present and null is not replaced: the cell holds \<open>None\<close>, which the
  page shows as the text \<open>None\<close>, also in the vehicle summary.
\<close>

theorem null_field_shows_None:
  \<open>map_sum id cells
     (display_results type_repr (PDict [(''vehicle_info'', PDict [(''make'', PNone)])])) =
     Inr [(''Vehicle'', PStr ''None''),
          (''Year'', PStr ''N/A''),
          (''OCR Characters'', PStr ''N/A''),
          (''Workflow'', PStr ''N/A''),
          (''Make'', PNone),
          (''Model'', PStr ''N/A''),
          (''Color'', PStr ''N/A''),
          (''Year'', PStr ''N/A''),
          (''Date'', PStr ''N/A''),
          (''Location'', PStr ''N/A''),
          (''Description'', PStr ''N/A''),
          (''Severity'', PStr ''<span class="pill pill-neutral">N/A</span>''),
          (''Estimated Cost'', PStr ''N/A''),
          (''Affected Areas'', PInt 0),
          (''Source Image'', PStr ''N/A'')]
   \<and> py_str type_repr PNone = ''None''\<close>
  by (simp add: display_results_def summary_row_def vehicle_title_def vehicle_card_def
        incident_card_def damage_card_def metadata_card_def areas_list_def st_metric_def
        py_get_def bind_def Let_def run_defs)

text \<open>
  The specification's scenario C: a Toyota Camry of 2020 with severe damage, a cost of
  4500.0 and two affected areas.
\<close>

lemma scenario_C:
  \<open>map_sum id cells
     (display_results type_repr
        (PDict [(''vehicle_info'',
                   PDict [(''make'', PStr ''Toyota''), (''model'', PStr ''Camry''),
                          (''year'', PInt 2020)]),
                (''damage_assessment'',
                   PDict [(''severity'', PStr ''severe''),
                          (''estimated_cost'', PFloat (Finite False 4500 0)),
                          (''affected_areas'', PList [PStr ''front bumper'', PStr ''hood''])])])) =
     Inr [(''Vehicle'', PStr ''Toyota Camry''),
          (''Year'', PInt 2020),
          (''OCR Characters'', PStr ''N/A''),
          (''Workflow'', PStr ''N/A''),
          (''Make'', PStr ''Toyota''),
          (''Model'', PStr ''Camry''),
          (''Color'', PStr ''N/A''),
          (''Year'', PInt 2020),
          (''Date'', PStr ''N/A''),
          (''Location'', PStr ''N/A''),
          (''Description'', PStr ''N/A''),
          (''Severity'', PStr ''<span class="pill pill-bad">High</span>''),
          (''Estimated Cost'', PStr ''$4,500.00''),
          (''Affected Areas'', PInt 2),
          (''Source Image'', PStr ''N/A'')]\<close>
  by (simp add: display_results_def summary_row_def vehicle_title_def vehicle_card_def
        incident_card_def damage_card_def metadata_card_def areas_list_def st_metric_def
        py_get_def bind_def Let_def run_defs cents_of_def fixed2_def commas_def digit_char_def
        digits_of.simps)

section \<open>The failure path of the view\<close>

text \<open>
  Claim C9, as amended. When the body of the response is a JSON object without a
  \<open>success\<close> key, or with a falsy one, the view takes the failure path: the status
  is set to failed, the error pill is shown with the body's \<open>error\<close> value if it has
  one and with \<open>Unknown error\<close> otherwise, and no claim data is rendered.
\<close>

theorem show_result_failure:
  assumes "\<not> truthy (dict_get body ''success'' PNone)"
  shows \<open>show_result repr (PDict body) =
     Inr [StatusUpdate ''Processing failed'' ''error'',
          Divider,
          Markdown ''<div class="section-h">Results</div>'',
          Markdown ''<p class="section-p">Structured claim information extracted from the image.</p>'',
          Markdown ''<span class="pill pill-bad">Error</span>'',
          ErrorBox (dict_get body ''error'' (PStr ''Unknown error''))]\<close>
  using assms by (simp add: show_result_def py_get_dict bind_Inr Let_def)

theorem show_result_failure_witness:
  \<open>\<not> truthy (dict_get [(''data'', PDict [(''vehicle_info'', PDict [])])] ''success'' PNone)
   \<and> show_result type_repr (PDict [(''data'', PDict [(''vehicle_info'', PDict [])])]) =
     Inr [StatusUpdate ''Processing failed'' ''error'',
          Divider,
          Markdown ''<div class="section-h">Results</div>'',
          Markdown ''<p class="section-p">Structured claim information extracted from the image.</p>'',
          Markdown ''<span class="pill pill-bad">Error</span>'',
          ErrorBox (PStr ''Unknown error'')]\<close>
  using show_result_failure [of "[(''data'', PDict [(''vehicle_info'', PDict [])])]" type_repr]
  by (simp add: dict_get_def)

text \<open>With an \<open>error\<close> key in the body the message is that value, not a generic one.\<close>

theorem show_result_own_error_message:
  \<open>show_result type_repr (PDict [(''success'', PBool False), (''error'', PStr ''OCR failed'')]) =
     Inr [StatusUpdate ''Processing failed'' ''error'',
          Divider,
          Markdown ''<div class="section-h">Results</div>'',
          Markdown ''<p class="section-p">Structured claim information extracted from the image.</p>'',
          Markdown ''<span class="pill pill-bad">Error</span>'',
          ErrorBox (PStr ''OCR failed'')]\<close>
  by (simp add: show_result_def py_get_def bind_def Let_def dict_get_def)

section \<open>A success without data\<close>

text \<open>
  Claim C10. When the result is a success and has no \<open>data\<close> field, or its data is
  an empty dict or \<open>None\<close>, \<open>display_results\<close> returns at once and paints nothing:
  the page shows the heading, the success pill and the raw JSON, and no panel.
\<close>

theorem no_data_no_panels:
  assumes "truthy (dict_get result ''success'' PNone)"
    and "map_of result ''data'' = None \<or> map_of result ''data'' = Some (PDict [])
         \<or> map_of result ''data'' = Some PNone"
  shows \<open>display_results repr (dict_get result ''data'' (PDict [])) = Inr []
    \<and> show_result repr (PDict result) =
     Inr [StatusUpdate ''Processing complete'' ''complete'',
          Divider,
          Markdown ''<div class="section-h">Results</div>'',
          Markdown ''<p class="section-p">Structured claim information extracted from the image.</p>'',
          Markdown ''<span class="pill pill-ok">Success</span>'',
          Markdown [],
          Markdown [],
          Expander ''View raw JSON'' [Json (PDict result)]]\<close>
proof -
  have d: "\<not> truthy (dict_get result ''data'' (PDict []))"
    using assms(2) by (auto simp: dict_get_def)
  then have dr: "display_results repr (dict_get result ''data'' (PDict [])) = Inr []"
    by (simp add: display_results_def)
  show ?thesis
    using assms(1) dr by (simp add: show_result_def py_get_dict bind_Inr Let_def)
qed

theorem no_data_no_panels_witness:
  \<open>show_result type_repr (PDict [(''success'', PBool True), (''data'', PNone)]) =
     Inr [StatusUpdate ''Processing complete'' ''complete'',
          Divider,
          Markdown ''<div class="section-h">Results</div>'',
          Markdown ''<p class="section-p">Structured claim information extracted from the image.</p>'',
          Markdown ''<span class="pill pill-ok">Success</span>'',
          Markdown [],
          Markdown [],
          Expander ''View raw JSON'' [Json (PDict [(''success'', PBool True), (''data'', PNone)])]]
   \<and> show_result type_repr (PDict [(''success'', PBool True)]) =
     Inr [StatusUpdate ''Processing complete'' ''complete'',
          Divider,
          Markdown ''<div class="section-h">Results</div>'',
          Markdown ''<p class="section-p">Structured claim information extracted from the image.</p>'',
          Markdown ''<span class="pill pill-ok">Success</span>'',
          Markdown [],
          Markdown [],
          Expander ''View raw JSON'' [Json (PDict [(''success'', PBool True)])]]\<close>
  using no_data_no_panels [of "[(''success'', PBool True), (''data'', PNone)]" type_repr]
        no_data_no_panels [of "[(''success'', PBool True)]" type_repr]
  by (simp add: dict_get_def)

end
